theory Spec2Isabelle
  imports Main
begin

section \<open>Data model\<close>

text \<open>
  JSON values as far as the first-party code builds them: string leaves and objects whose
  keys keep their insertion order (the order \<open>JSON.stringify\<close> writes them in).
\<close>

datatype json = JString string | JObject "(string \<times> json) list"

text \<open>
  A thrown JavaScript \<open>Error\<close>: its \<open>name\<close> and its \<open>message\<close>.
\<close>

record js_error =
  err_name :: string
  message :: string

text \<open>
  The \<open>User\<close> row that \<open>include: { user: true }\<close> loads with a session. The middleware
  reads the columns \<open>id\<close>, \<open>email\<close> and \<open>name\<close>; the remaining columns of the row are
  kept in \<open>user_columns\<close>.
\<close>

record user_row =
  user_id :: string
  user_email :: string
  user_name :: string
  user_columns :: "(string \<times> json) list"

text \<open>
  The \<open>Session\<close> row: the unique \<open>token\<close>, \<open>expiresAt\<close> as milliseconds since the epoch
  (what comparing two \<open>Date\<close> objects with \<open><\<close> compares) and the owning user.
\<close>

record session_row =
  token :: string
  expiresAt :: int
  session_user :: user_row

text \<open>
  The datastore behind the persistence client: the session table, an \<open>outage\<close> that makes
  every query reject with the given error, and the error the client raises for a query
  whose \<open>where\<close> clause holds no value (\<open>token\<close> is \<open>undefined\<close>).
\<close>

record datastore =
  sessions :: "session_row list"
  outage :: "js_error option"
  validation :: js_error

text \<open>
  Everything outside the request that the code reads or writes: the datastore, the trace
  of tokens handed to \<open>prisma.session.findUnique\<close>, the lines written with
  \<open>console.error\<close>, and the clock that \<open>new Date()\<close> reads.
\<close>

record world =
  db :: datastore
  queries :: "string option list"
  console :: "string list"
  now :: int

text \<open>The identity attached to the request as \<open>req.user\<close>.\<close>

record identity =
  ident_id :: string
  ident_email :: string
  ident_name :: string

record request =
  authorization :: "string option"
  user :: "identity option"

text \<open>
  The response object: \<open>statusCode\<close> is 200 until \<open>res.status\<close> changes it, and
  \<open>body\<close> is \<open>None\<close> until \<open>res.json\<close> sends one.
\<close>

record response =
  statusCode :: nat
  body :: "json option"

definition new_response :: response where
  "new_response = \<lparr>statusCode = 200, body = None\<rparr>"

definition status :: "response \<Rightarrow> nat \<Rightarrow> response" where
  "status res code = res\<lparr>statusCode := code\<rparr>"

definition res_json :: "response \<Rightarrow> json \<Rightarrow> response" where
  "res_json res b = res\<lparr>body := Some b\<rparr>"

text \<open>
  What a middleware leaves behind: the world, the request, the response, and whether it
  called \<open>next()\<close>.
\<close>

record result =
  r_world :: world
  r_req :: request
  r_res :: response
  next_called :: bool

section \<open>String operations of the host language\<close>

text \<open>\<open>s.startsWith(p)\<close>.\<close>

definition startsWith :: "string \<Rightarrow> string \<Rightarrow> bool" where
  "startsWith s p = (take (length p) s = p)"

text \<open>
  \<open>s.split(c)\<close> for a one-character separator: the pieces between the separators, empty
  pieces kept; the empty string gives one empty piece.
\<close>

fun split_str :: "string \<Rightarrow> char \<Rightarrow> string list" where
  "split_str [] c = [[]]"
| "split_str (x # xs) c =
     (if x = c then [] # split_str xs c
      else (case split_str xs c of
              [] \<Rightarrow> [[x]]
            | p # ps \<Rightarrow> (x # p) # ps))"

text \<open>Array indexing \<open>xs[i]\<close>: \<open>undefined\<close> (here \<open>None\<close>) out of range.\<close>

fun index :: "'a list \<Rightarrow> nat \<Rightarrow> 'a option" where
  "index [] i = None"
| "index (x # xs) 0 = Some x"
| "index (x # xs) (Suc i) = index xs i"

text \<open>
  \<open>`${error}`\<close> for an \<open>Error\<close> object, that is \<open>Error.prototype.toString\<close>.
\<close>

definition Error_toString :: "js_error \<Rightarrow> string" where
  "Error_toString e =
     (if err_name e = [] then message e
      else if message e = [] then err_name e
      else err_name e @ '': '' @ message e)"

section \<open>The persistence client\<close>

text \<open>
  \<open>prisma.session.findUnique({ where: { token }, include: { user: true } })\<close>: a read of
  the session table by exact token equality. \<open>Inl\<close> is a rejected promise.
\<close>

definition findUnique :: "datastore \<Rightarrow> string option \<Rightarrow> js_error + session_row option" where
  "findUnique d tok =
     (case tok of
        None \<Rightarrow> Inl (validation d)
      | Some t \<Rightarrow>
          (case outage d of
             Some e \<Rightarrow> Inl e
           | None \<Rightarrow> Inr (find (\<lambda>s. token s = t) (sessions d))))"

text \<open>The call as the world sees it: the token is recorded in the trace of queries.\<close>

definition session_findUnique ::
  "world \<Rightarrow> string option \<Rightarrow> world \<times> (js_error + session_row option)" where
  "session_findUnique w tok = (w\<lparr>queries := queries w @ [tok]\<rparr>, findUnique (db w) tok)"

section \<open>The session authenticator\<close>

text \<open>The token the middleware extracts: \<open>authHeader.split(" ")[1]\<close>.\<close>

definition token_of :: "string \<Rightarrow> string option" where
  "token_of authHeader = index (split_str authHeader CHR '' '') 1"

text \<open>
  \<open>requireAuth\<close>. The \<open>try\<close> block has one statement that can throw, the awaited lookup;
  its \<open>Inl\<close> branch is the \<open>catch\<close> block. An absent header and an empty one are the two
  falsy values of \<open>authHeader\<close>; \<open>the authHeader\<close> is read only where the header is
  present. The clock is read after the lookup, in the expiry check.
\<close>

definition requireAuth :: "world \<Rightarrow> request \<Rightarrow> response \<Rightarrow> result" where
  "requireAuth w req res =
     (let authHeader = authorization req in
      if authHeader = None \<or> authHeader = Some [] \<or> \<not> startsWith (the authHeader) ''Bearer ''
      then \<lparr>r_world = w, r_req = req,
            r_res = res_json (status res 401)
                      (JObject [(''error'', JString ''Unauthorized: No Token provided'')]),
            next_called = False\<rparr>
      else
        (let tok = token_of (the authHeader);
             (w', found) = session_findUnique w tok in
         case found of
           Inl error \<Rightarrow>
             \<lparr>r_world = w'\<lparr>console := console w' @
                           [''Auth middleware error: '' @ Error_toString error]\<rparr>,
              r_req = req,
              r_res = res_json (status res 500)
                        (JObject [(''error'', JString ''Internal server error during auth'')]),
              next_called = False\<rparr>
         | Inr None \<Rightarrow>
             \<lparr>r_world = w', r_req = req,
              r_res = res_json (status res 401)
                        (JObject [(''error'', JString ''Unauthorized: Invalid or expired token'')]),
              next_called = False\<rparr>
         | Inr (Some session) \<Rightarrow>
             if expiresAt session < now w'
             then \<lparr>r_world = w', r_req = req,
                   r_res = res_json (status res 401)
                             (JObject [(''error'', JString ''Unauthorized: Invalid or expired token'')]),
                   next_called = False\<rparr>
             else \<lparr>r_world = w',
                   r_req = req\<lparr>user := Some \<lparr>ident_id = user_id (session_user session),
                                             ident_email = user_email (session_user session),
                                             ident_name = user_name (session_user session)\<rparr>\<rparr>,
                   r_res = res,
                   next_called = True\<rparr>))"

section \<open>The global error responder\<close>

text \<open>
  \<open>errorHandler\<close>: one \<open>console.error\<close> line and a 500 response. It has no statement that
  throws and it does not call \<open>next\<close>.
\<close>

definition errorHandler :: "js_error \<Rightarrow> world \<Rightarrow> request \<Rightarrow> response \<Rightarrow> result" where
  "errorHandler err w req res =
     \<lparr>r_world = w\<lparr>console := console w @ [''Error: '' @ message err]\<rparr>,
      r_req = req,
      r_res = res_json (status res 500)
                (JObject [(''error'', JString ''Internal server error''),
                          (''message'', JString (message err))]),
      next_called = False\<rparr>"

section \<open>The protected routes\<close>

text \<open>
  \<open>req.user\<close> as \<open>JSON.stringify\<close> writes it; a property whose value is \<open>undefined\<close> is
  left out of the enclosing object.
\<close>

definition json_of_identity :: "identity \<Rightarrow> json" where
  "json_of_identity u =
     JObject [(''id'', JString (ident_id u)),
              (''email'', JString (ident_email u)),
              (''name'', JString (ident_name u))]"

definition user_property :: "request \<Rightarrow> (string \<times> json) list" where
  "user_property req =
     (case user req of None \<Rightarrow> [] | Some u \<Rightarrow> [(''user'', json_of_identity u)])"

definition profile_handler :: "request \<Rightarrow> response \<Rightarrow> response" where
  "profile_handler req res =
     res_json res (JObject ((''message'', JString ''This is a protected route'') # user_property req))"

definition dashboard_handler :: "request \<Rightarrow> response \<Rightarrow> response" where
  "dashboard_handler req res =
     res_json res (JObject ((''message'', JString ''Welcome to your dashboard!'') # user_property req))"

text \<open>
  \<open>router.get(path, requireAuth, handler)\<close>: the handler runs if and only if the
  middleware called \<open>next()\<close>, on the request and response the middleware left.
\<close>

definition route ::
  "(world \<Rightarrow> request \<Rightarrow> response \<Rightarrow> result) \<Rightarrow> (request \<Rightarrow> response \<Rightarrow> response) \<Rightarrow>
   world \<Rightarrow> request \<Rightarrow> response \<Rightarrow> result" where
  "route mw handler w req res =
     (let r = mw w req res in
      if next_called r then r\<lparr>r_res := handler (r_req r) (r_res r), next_called := False\<rparr>
      else r)"

text \<open>
  How a \<open>Router()\<close> with default options matches a request path against a route path
  without parameters: letters of the ASCII alphabet compare without regard to case, and
  the request path may end in one extra slash.
\<close>

definition ascii_lower :: "char \<Rightarrow> char" where
  "ascii_lower c =
     (case map_of (zip ''ABCDEFGHIJKLMNOPQRSTUVWXYZ'' ''abcdefghijklmnopqrstuvwxyz'') c of
        None \<Rightarrow> c
      | Some l \<Rightarrow> l)"

definition matches :: "string \<Rightarrow> string \<Rightarrow> bool" where
  "matches path route_path =
     (map ascii_lower path = map ascii_lower route_path \<or>
      map ascii_lower path = map ascii_lower route_path @ ''/'')"

text \<open>
  The router of the user routes (mounted under \<open>/api/user\<close>), for a \<open>GET\<close> request: the
  first route whose path matches runs, and the result is \<open>None\<close> when no route of this
  router matches. Every request starts with a fresh response.
\<close>

definition router_get :: "string \<Rightarrow> world \<Rightarrow> request \<Rightarrow> result option" where
  "router_get path w req =
     (if matches path ''/profile''
      then Some (route requireAuth profile_handler w req new_response)
      else if matches path ''/dashboard''
      then Some (route requireAuth dashboard_handler w req new_response)
      else None)"

text \<open>The keys of a JSON object, in order.\<close>

fun keys :: "json \<Rightarrow> string list" where
  "keys (JObject kvs) = map fst kvs"
| "keys (JString s) = []"

section \<open>Scenarios\<close>

text \<open>
  Concrete inputs on which the theorems below are evaluated: a user, a session with token
  \<open>xyz\<close> expiring at a given time, a datastore holding that session (optionally in an
  outage), a world at a given clock time, and a request with a given header.
\<close>

definition user_u1 :: user_row where
  "user_u1 = \<lparr>user_id = ''u1'', user_email = ''a@b.com'', user_name = ''A'',
              user_columns = [(''image'', JString ''a.png'')]\<rparr>"

definition session_xyz :: "int \<Rightarrow> session_row" where
  "session_xyz exp = \<lparr>token = ''xyz'', expiresAt = exp, session_user = user_u1\<rparr>"

definition store :: "int \<Rightarrow> js_error option \<Rightarrow> datastore" where
  "store exp out =
     \<lparr>sessions = [session_xyz exp], outage = out,
      validation = \<lparr>err_name = ''PrismaClientValidationError'', message = ''Invalid invocation''\<rparr>\<rparr>"

definition world_at :: "int \<Rightarrow> js_error option \<Rightarrow> int \<Rightarrow> world" where
  "world_at exp out t = \<lparr>db = store exp out, queries = [], console = [], now = t\<rparr>"

definition request_with :: "string option \<Rightarrow> request" where
  "request_with h = \<lparr>authorization = h, user = None\<rparr>"

definition connection_lost :: js_error where
  "connection_lost = \<lparr>err_name = ''Error'', message = ''connect ECONNREFUSED 127.0.0.1:5432''\<rparr>"

section \<open>Properties of the string operations\<close>

lemma split_str_first: "\<exists>ps. split_str r c = takeWhile (\<lambda>x. x \<noteq> c) r # ps"
  by (induction r) (auto split: list.splits)

lemma split_str_Bearer:
  "split_str (''Bearer '' @ r) CHR '' '' = ''Bearer'' # split_str r CHR '' ''"
  by (simp split: list.splits)

lemma Bearer_prefix:
  assumes "startsWith h ''Bearer ''"
  shows "h = ''Bearer '' @ drop 7 h"
proof -
  have len: "length ''Bearer '' = 7"
    by simp
  have "take 7 h = ''Bearer ''"
    using assms unfolding startsWith_def len .
  then show ?thesis
    using append_take_drop_id [of 7 h] by (simp only:)
qed

lemma token_of_Bearer:
  assumes "startsWith h ''Bearer ''"
  shows "token_of h = Some (takeWhile (\<lambda>x. x \<noteq> CHR '' '') (drop 7 h))"
proof -
  obtain ps where ps:
    "split_str (drop 7 h) CHR '' '' = takeWhile (\<lambda>x. x \<noteq> CHR '' '') (drop 7 h) # ps"
    using split_str_first by blast
  have "token_of h = index (split_str (''Bearer '' @ drop 7 h) CHR '' '') 1"
    unfolding token_of_def using Bearer_prefix [OF assms] by simp
  also have "\<dots> = index (split_str (drop 7 h) CHR '' '') 0"
    by (simp only: split_str_Bearer One_nat_def index.simps)
  also have "\<dots> = Some (takeWhile (\<lambda>x. x \<noteq> CHR '' '') (drop 7 h))"
    by (simp add: ps)
  finally show ?thesis .
qed

lemma startsWith_nonempty: "startsWith h ''Bearer '' \<Longrightarrow> h \<noteq> []"
  by (auto simp: startsWith_def)

lemma scheme_word_is_Bearer:
  assumes "startsWith (s @ CHR '' '' # t) ''Bearer ''" and "CHR '' '' \<notin> set s"
  shows "s = ''Bearer''"
proof -
  let ?h = "s @ CHR '' '' # t"
  have "takeWhile (\<lambda>x. x \<noteq> CHR '' '') ?h = s"
    using assms(2) by (induction s) auto
  moreover have "takeWhile (\<lambda>x. x \<noteq> CHR '' '') (''Bearer '' @ drop 7 ?h) = ''Bearer''"
    by simp
  ultimately show ?thesis
    using Bearer_prefix [OF assms(1)] by simp
qed

lemma bare_Bearer: "\<not> startsWith ''Bearer'' ''Bearer ''"
  by (simp add: startsWith_def)

section \<open>The branches of the session authenticator\<close>

lemma requireAuth_no_token:
  assumes "case authorization req of None \<Rightarrow> True | Some h \<Rightarrow> \<not> startsWith h ''Bearer ''"
  shows "requireAuth w req res =
           \<lparr>r_world = w, r_req = req,
            r_res = res\<lparr>statusCode := 401,
                        body := Some (JObject [(''error'', JString ''Unauthorized: No Token provided'')])\<rparr>,
            next_called = False\<rparr>"
  using assms
  by (cases "authorization req") (simp_all add: requireAuth_def status_def res_json_def)

lemma requireAuth_lookup:
  assumes "authorization req = Some h" and "startsWith h ''Bearer ''"
  shows "requireAuth w req res =
           (case findUnique (db w) (token_of h) of
              Inl error \<Rightarrow>
                \<lparr>r_world = w\<lparr>queries := queries w @ [token_of h],
                              console := console w @
                                [''Auth middleware error: '' @ Error_toString error]\<rparr>,
                 r_req = req,
                 r_res = res\<lparr>statusCode := 500,
                             body := Some (JObject [(''error'', JString ''Internal server error during auth'')])\<rparr>,
                 next_called = False\<rparr>
            | Inr None \<Rightarrow>
                \<lparr>r_world = w\<lparr>queries := queries w @ [token_of h]\<rparr>, r_req = req,
                 r_res = res\<lparr>statusCode := 401,
                             body := Some (JObject [(''error'', JString ''Unauthorized: Invalid or expired token'')])\<rparr>,
                 next_called = False\<rparr>
            | Inr (Some session) \<Rightarrow>
                if expiresAt session < now w
                then \<lparr>r_world = w\<lparr>queries := queries w @ [token_of h]\<rparr>, r_req = req,
                      r_res = res\<lparr>statusCode := 401,
                                  body := Some (JObject [(''error'', JString ''Unauthorized: Invalid or expired token'')])\<rparr>,
                      next_called = False\<rparr>
                else \<lparr>r_world = w\<lparr>queries := queries w @ [token_of h]\<rparr>,
                      r_req = req\<lparr>user := Some \<lparr>ident_id = user_id (session_user session),
                                                ident_email = user_email (session_user session),
                                                ident_name = user_name (session_user session)\<rparr>\<rparr>,
                      r_res = res,
                      next_called = True\<rparr>)"
  using assms startsWith_nonempty [OF assms(2)]
  by (simp add: requireAuth_def session_findUnique_def status_def res_json_def
           split: sum.splits option.splits)

section \<open>The two routes at their own paths\<close>

lemma router_get_profile:
  "router_get ''/profile'' w req = Some (route requireAuth profile_handler w req new_response)"
  by (simp add: router_get_def matches_def ascii_lower_def)

lemma router_get_dashboard:
  "router_get ''/dashboard'' w req = Some (route requireAuth dashboard_handler w req new_response)"
  by (simp add: router_get_def matches_def ascii_lower_def)

section \<open>The authenticated-request lifecycle\<close>

text \<open>
  C1. A request whose header starts with \<open>Bearer \<close> and whose token lookup returns a
  session expiring strictly after the current time: the middleware calls \<open>next()\<close> with
  \<open>req.user\<close> set to the \<open>id\<close>, \<open>email\<close> and \<open>name\<close> of the session's user and nothing
  else, writes no response itself, and the route handlers answer 200 with their message
  and that identity.
\<close>

theorem valid_session_reaches_handler:
  assumes "authorization req = Some h" and "startsWith h ''Bearer ''"
    and "findUnique (db w) (token_of h) = Inr (Some s)"
    and "now w < expiresAt s"
  shows "next_called (requireAuth w req res) \<and>
         r_res (requireAuth w req res) = res \<and>
         user (r_req (requireAuth w req res)) =
           Some \<lparr>ident_id = user_id (session_user s),
                 ident_email = user_email (session_user s),
                 ident_name = user_name (session_user s)\<rparr> \<and>
         map_option r_res (router_get ''/dashboard'' w req) =
           Some \<lparr>statusCode = 200,
                 body = Some (JObject
                   [(''message'', JString ''Welcome to your dashboard!''),
                    (''user'', JObject [(''id'', JString (user_id (session_user s))),
                                        (''email'', JString (user_email (session_user s))),
                                        (''name'', JString (user_name (session_user s)))])])\<rparr> \<and>
         map_option r_res (router_get ''/profile'' w req) =
           Some \<lparr>statusCode = 200,
                 body = Some (JObject
                   [(''message'', JString ''This is a protected route''),
                    (''user'', JObject [(''id'', JString (user_id (session_user s))),
                                        (''email'', JString (user_email (session_user s))),
                                        (''name'', JString (user_name (session_user s)))])])\<rparr>"
proof -
  have r: "requireAuth w req res =
             \<lparr>r_world = w\<lparr>queries := queries w @ [token_of h]\<rparr>,
              r_req = req\<lparr>user := Some \<lparr>ident_id = user_id (session_user s),
                                        ident_email = user_email (session_user s),
                                        ident_name = user_name (session_user s)\<rparr>\<rparr>,
              r_res = res, next_called = True\<rparr>" for res
    using assms by (simp add: requireAuth_lookup)
  show ?thesis
    by (simp add: r router_get_profile router_get_dashboard route_def dashboard_handler_def profile_handler_def
          user_property_def json_of_identity_def res_json_def new_response_def)
qed

theorem valid_session_reaches_handler_witness:
  "authorization (request_with (Some ''Bearer xyz'')) = Some ''Bearer xyz'' \<and>
   startsWith ''Bearer xyz'' ''Bearer '' \<and>
   findUnique (db (world_at 3600000 None 0)) (token_of ''Bearer xyz'') = Inr (Some (session_xyz 3600000)) \<and>
   now (world_at 3600000 None 0) < expiresAt (session_xyz 3600000) \<and>
   next_called (requireAuth (world_at 3600000 None 0) (request_with (Some ''Bearer xyz'')) new_response) \<and>
   map_option r_res (router_get ''/dashboard'' (world_at 3600000 None 0) (request_with (Some ''Bearer xyz''))) =
     Some \<lparr>statusCode = 200,
           body = Some (JObject
             [(''message'', JString ''Welcome to your dashboard!''),
              (''user'', JObject [(''id'', JString ''u1''),
                                  (''email'', JString ''a@b.com''),
                                  (''name'', JString ''A'')])])\<rparr>"
proof -
  have a: "authorization (request_with (Some ''Bearer xyz'')) = Some ''Bearer xyz''"
    by (simp add: request_with_def)
  have b: "startsWith ''Bearer xyz'' ''Bearer ''"
    by (simp add: startsWith_def)
  have c: "findUnique (db (world_at 3600000 None 0)) (token_of ''Bearer xyz'') = Inr (Some (session_xyz 3600000))"
    by (simp add: findUnique_def token_of_def world_at_def store_def session_xyz_def)
  have d: "now (world_at 3600000 None 0) < expiresAt (session_xyz 3600000)"
    by (simp add: world_at_def session_xyz_def)
  show ?thesis
    using a b c d valid_session_reaches_handler [OF a b c d, of new_response]
    by (simp add: session_xyz_def user_u1_def)
qed

text \<open>
  C2 (as stated, refuted). A session whose \<open>expiresAt\<close> equals the current time passes
  the check \<open>session.expiresAt < new Date()\<close>: the middleware calls \<open>next()\<close> and the
  dashboard answers 200.
\<close>

theorem expiry_equal_to_now_counterexample:
  "findUnique (db (world_at 1000 None 1000)) (token_of ''Bearer xyz'') = Inr (Some (session_xyz 1000)) \<and>
   expiresAt (session_xyz 1000) = now (world_at 1000 None 1000) \<and>
   next_called (requireAuth (world_at 1000 None 1000) (request_with (Some ''Bearer xyz'')) new_response) \<and>
   map_option (statusCode \<circ> r_res)
     (router_get ''/dashboard'' (world_at 1000 None 1000) (request_with (Some ''Bearer xyz''))) = Some 200"
  by (simp add: requireAuth_def session_findUnique_def findUnique_def token_of_def
        startsWith_def world_at_def store_def session_xyz_def request_with_def
        router_get_dashboard route_def dashboard_handler_def res_json_def new_response_def)

text \<open>
  C2 (amended). A session whose \<open>expiresAt\<close> is strictly before the current time is
  rejected with 401 and the message \<open>Unauthorized: Invalid or expired token\<close>, and the
  handler does not run; a session whose \<open>expiresAt\<close> equals the current time is accepted.
\<close>

theorem expired_session_rejected:
  assumes "authorization req = Some h" and "startsWith h ''Bearer ''"
    and "findUnique (db w) (token_of h) = Inr (Some s)"
  shows "(expiresAt s < now w \<longrightarrow>
            r_res (requireAuth w req res) =
              res\<lparr>statusCode := 401,
                  body := Some (JObject [(''error'', JString ''Unauthorized: Invalid or expired token'')])\<rparr> \<and>
            \<not> next_called (requireAuth w req res) \<and>
            map_option r_res (router_get ''/dashboard'' w req) =
              Some \<lparr>statusCode = 401,
                    body = Some (JObject [(''error'', JString ''Unauthorized: Invalid or expired token'')])\<rparr>) \<and>
         (expiresAt s = now w \<longrightarrow> next_called (requireAuth w req res))"
  using assms
  by (simp add: requireAuth_lookup router_get_dashboard route_def new_response_def)

theorem expired_session_rejected_witness:
  "authorization (request_with (Some ''Bearer xyz'')) = Some ''Bearer xyz'' \<and>
   startsWith ''Bearer xyz'' ''Bearer '' \<and>
   findUnique (db (world_at (- 3600000) None 0)) (token_of ''Bearer xyz'') =
     Inr (Some (session_xyz (- 3600000))) \<and>
   expiresAt (session_xyz (- 3600000)) < now (world_at (- 3600000) None 0) \<and>
   r_res (requireAuth (world_at (- 3600000) None 0) (request_with (Some ''Bearer xyz'')) new_response) =
     \<lparr>statusCode = 401,
      body = Some (JObject [(''error'', JString ''Unauthorized: Invalid or expired token'')])\<rparr> \<and>
   \<not> next_called (requireAuth (world_at (- 3600000) None 0) (request_with (Some ''Bearer xyz'')) new_response)"
proof -
  have a: "authorization (request_with (Some ''Bearer xyz'')) = Some ''Bearer xyz''"
    by (simp add: request_with_def)
  have b: "startsWith ''Bearer xyz'' ''Bearer ''"
    by (simp add: startsWith_def)
  have c: "findUnique (db (world_at (- 3600000) None 0)) (token_of ''Bearer xyz'') =
             Inr (Some (session_xyz (- 3600000)))"
    by (simp add: findUnique_def token_of_def world_at_def store_def session_xyz_def)
  have d: "expiresAt (session_xyz (- 3600000)) < now (world_at (- 3600000) None 0)"
    by (simp add: world_at_def session_xyz_def)
  show ?thesis
    using a b c d expired_session_rejected [OF a b c, of new_response]
    by (simp add: new_response_def)
qed

text \<open>
  C3. A request with no \<open>Authorization\<close> header, or with one that does not start with
  \<open>Bearer \<close>: the middleware answers 401 with \<open>{error: "Unauthorized: No Token provided"}\<close>,
  leaves the world (and so the trace of session lookups) and the request as they were, and
  does not call \<open>next()\<close>; both routes answer with that response.
\<close>

theorem missing_or_foreign_header_rejected:
  assumes "case authorization req of None \<Rightarrow> True | Some h \<Rightarrow> \<not> startsWith h ''Bearer ''"
  shows "r_res (requireAuth w req res) =
           res\<lparr>statusCode := 401,
               body := Some (JObject [(''error'', JString ''Unauthorized: No Token provided'')])\<rparr> \<and>
         \<not> next_called (requireAuth w req res) \<and>
         r_world (requireAuth w req res) = w \<and>
         queries (r_world (requireAuth w req res)) = queries w \<and>
         map_option r_res (router_get ''/profile'' w req) =
           Some \<lparr>statusCode = 401,
                 body = Some (JObject [(''error'', JString ''Unauthorized: No Token provided'')])\<rparr> \<and>
         map_option r_res (router_get ''/dashboard'' w req) =
           Some \<lparr>statusCode = 401,
                 body = Some (JObject [(''error'', JString ''Unauthorized: No Token provided'')])\<rparr>"
  by (simp add: requireAuth_no_token [OF assms] router_get_profile router_get_dashboard route_def
        new_response_def)

theorem missing_or_foreign_header_rejected_witness:
  "map_option r_res (router_get ''/profile'' (world_at 3600000 None 0) (request_with None)) =
     Some \<lparr>statusCode = 401,
           body = Some (JObject [(''error'', JString ''Unauthorized: No Token provided'')])\<rparr> \<and>
   map_option r_res (router_get ''/profile'' (world_at 3600000 None 0) (request_with (Some ''Basic xyz''))) =
     Some \<lparr>statusCode = 401,
           body = Some (JObject [(''error'', JString ''Unauthorized: No Token provided'')])\<rparr> \<and>
   queries (r_world (requireAuth (world_at 3600000 None 0) (request_with (Some ''Basic xyz'')) new_response)) = []"
proof -
  have a: "case authorization (request_with None) of None \<Rightarrow> True
           | Some h \<Rightarrow> \<not> startsWith h ''Bearer ''"
    by (simp add: request_with_def)
  have b: "case authorization (request_with (Some ''Basic xyz'')) of None \<Rightarrow> True
           | Some h \<Rightarrow> \<not> startsWith h ''Bearer ''"
    by (simp add: request_with_def startsWith_def)
  show ?thesis
    using missing_or_foreign_header_rejected [OF a, of "world_at 3600000 None 0" new_response]
      missing_or_foreign_header_rejected [OF b, of "world_at 3600000 None 0" new_response]
    by (simp add: world_at_def)
qed

text \<open>
  C4 (as stated, refuted). At a clock time equal to the session's \<open>expiresAt\<close> (a session
  that is expired by the reading "at or before the current time"), the request with an
  unknown token is answered 401, while the request with the session's token passes the
  middleware and the route answers 200: the two responses differ.
\<close>

theorem not_found_and_expiring_now_counterexample:
  "findUnique (db (world_at 1000 None 1000)) (token_of ''Bearer abc123'') = Inr None \<and>
   findUnique (db (world_at 1000 None 1000)) (token_of ''Bearer xyz'') = Inr (Some (session_xyz 1000)) \<and>
   expiresAt (session_xyz 1000) \<le> now (world_at 1000 None 1000) \<and>
   map_option (statusCode \<circ> r_res)
     (router_get ''/profile'' (world_at 1000 None 1000) (request_with (Some ''Bearer abc123''))) = Some 401 \<and>
   map_option (statusCode \<circ> r_res)
     (router_get ''/profile'' (world_at 1000 None 1000) (request_with (Some ''Bearer xyz''))) = Some 200 \<and>
   r_res (requireAuth (world_at 1000 None 1000) (request_with (Some ''Bearer abc123'')) new_response) \<noteq>
   r_res (requireAuth (world_at 1000 None 1000) (request_with (Some ''Bearer xyz'')) new_response)"
  by (simp add: requireAuth_def session_findUnique_def findUnique_def token_of_def
        startsWith_def world_at_def store_def session_xyz_def request_with_def
        router_get_profile route_def profile_handler_def status_def res_json_def new_response_def)

text \<open>
  C4 (amended). Two requests whose headers start with \<open>Bearer \<close>, the lookup of the first
  finding no session and the lookup of the second finding a session whose \<open>expiresAt\<close>
  is strictly before the current time: the middleware writes the same response for both,
  401 with \<open>{error: "Unauthorized: Invalid or expired token"}\<close>, calls \<open>next()\<close> for
  neither, and the router answers both alike on every request path.
\<close>

theorem not_found_and_expired_alike:
  assumes "authorization req1 = Some h1" and "startsWith h1 ''Bearer ''"
    and "findUnique (db w1) (token_of h1) = Inr None"
    and "authorization req2 = Some h2" and "startsWith h2 ''Bearer ''"
    and "findUnique (db w2) (token_of h2) = Inr (Some s)"
    and "expiresAt s < now w2"
  shows "r_res (requireAuth w1 req1 res) = r_res (requireAuth w2 req2 res) \<and>
         r_res (requireAuth w1 req1 res) =
           res\<lparr>statusCode := 401,
               body := Some (JObject [(''error'', JString ''Unauthorized: Invalid or expired token'')])\<rparr> \<and>
         \<not> next_called (requireAuth w1 req1 res) \<and>
         \<not> next_called (requireAuth w2 req2 res) \<and>
         map_option r_res (router_get path w1 req1) = map_option r_res (router_get path w2 req2) \<and>
         map_option r_res (router_get ''/profile'' w1 req1) =
           Some \<lparr>statusCode = 401,
                 body = Some (JObject [(''error'', JString ''Unauthorized: Invalid or expired token'')])\<rparr> \<and>
         map_option r_res (router_get ''/dashboard'' w2 req2) =
           Some \<lparr>statusCode = 401,
                 body = Some (JObject [(''error'', JString ''Unauthorized: Invalid or expired token'')])\<rparr>"
proof -
  have "map_option r_res (router_get path w1 req1) = map_option r_res (router_get path w2 req2)"
    using assms by (simp add: requireAuth_lookup router_get_def route_def)
  then show ?thesis
    using assms
    by (simp add: requireAuth_lookup router_get_profile router_get_dashboard route_def
          new_response_def)
qed

theorem not_found_and_expired_alike_witness:
  "findUnique (db (world_at (- 3600000) None 0)) (token_of ''Bearer abc123'') = Inr None \<and>
   findUnique (db (world_at (- 3600000) None 0)) (token_of ''Bearer xyz'') =
     Inr (Some (session_xyz (- 3600000))) \<and>
   expiresAt (session_xyz (- 3600000)) < now (world_at (- 3600000) None 0) \<and>
   map_option r_res (router_get ''/PROFILE/'' (world_at (- 3600000) None 0) (request_with (Some ''Bearer abc123''))) =
     map_option r_res (router_get ''/PROFILE/'' (world_at (- 3600000) None 0) (request_with (Some ''Bearer xyz''))) \<and>
   map_option r_res (router_get ''/profile'' (world_at (- 3600000) None 0) (request_with (Some ''Bearer abc123''))) =
     Some \<lparr>statusCode = 401,
           body = Some (JObject [(''error'', JString ''Unauthorized: Invalid or expired token'')])\<rparr> \<and>
   map_option r_res (router_get ''/dashboard'' (world_at (- 3600000) None 0) (request_with (Some ''Bearer xyz''))) =
     Some \<lparr>statusCode = 401,
           body = Some (JObject [(''error'', JString ''Unauthorized: Invalid or expired token'')])\<rparr> \<and>
   r_res (requireAuth (world_at (- 3600000) None 0) (request_with (Some ''Bearer abc123'')) new_response) =
     \<lparr>statusCode = 401,
      body = Some (JObject [(''error'', JString ''Unauthorized: Invalid or expired token'')])\<rparr>"
proof -
  have a1: "authorization (request_with (Some ''Bearer abc123'')) = Some ''Bearer abc123''"
    and a2: "authorization (request_with (Some ''Bearer xyz'')) = Some ''Bearer xyz''"
    by (simp_all add: request_with_def)
  have b1: "startsWith ''Bearer abc123'' ''Bearer ''" and b2: "startsWith ''Bearer xyz'' ''Bearer ''"
    by (simp_all add: startsWith_def)
  have c1: "findUnique (db (world_at (- 3600000) None 0)) (token_of ''Bearer abc123'') = Inr None"
    by (simp add: findUnique_def token_of_def world_at_def store_def session_xyz_def)
  have c2: "findUnique (db (world_at (- 3600000) None 0)) (token_of ''Bearer xyz'') =
              Inr (Some (session_xyz (- 3600000)))"
    by (simp add: findUnique_def token_of_def world_at_def store_def session_xyz_def)
  have d: "expiresAt (session_xyz (- 3600000)) < now (world_at (- 3600000) None 0)"
    by (simp add: world_at_def session_xyz_def)
  show ?thesis
    using c1 c2 d not_found_and_expired_alike [OF a1 b1 c1 a2 b2 c2 d, of new_response "''/PROFILE/''"]
    by (auto simp: new_response_def)
qed

text \<open>
  C5 (as stated, refuted). For the header \<open>Bearer abc def\<close> the substring after the
  prefix is \<open>abc def\<close>, but \<open>authHeader.split(" ")[1]\<close> is \<open>abc\<close>, and that is what is looked
  up.
\<close>

theorem token_with_space_counterexample:
  "startsWith ''Bearer abc def'' ''Bearer '' \<and>
   drop (length ''Bearer '') ''Bearer abc def'' = ''abc def'' \<and>
   queries (r_world (requireAuth (world_at 3600000 None 0)
              (request_with (Some ''Bearer abc def'')) new_response)) = [Some ''abc''] \<and>
   queries (r_world (requireAuth (world_at 3600000 None 0)
              (request_with (Some ''Bearer abc def'')) new_response)) \<noteq> [Some ''abc def'']"
  by (simp add: requireAuth_def session_findUnique_def findUnique_def token_of_def
        startsWith_def world_at_def store_def session_xyz_def request_with_def)

text \<open>
  C5 (amended). For a header that starts with \<open>Bearer \<close> (seven characters), the value
  looked up is the part of the header after the prefix up to, and not including, the next
  space; a session the lookup finds has exactly that value as its token; and the value is
  the whole substring after the prefix exactly when that substring has no space in it.
\<close>

theorem lookup_key_is_second_field:
  assumes "authorization req = Some h" and "startsWith h ''Bearer ''"
  shows "queries (r_world (requireAuth w req res)) =
           queries w @ [Some (takeWhile (\<lambda>c. c \<noteq> CHR '' '') (drop 7 h))] \<and>
         (findUnique (db w) (token_of h) = Inr (Some s) \<longrightarrow>
            token s = takeWhile (\<lambda>c. c \<noteq> CHR '' '') (drop 7 h)) \<and>
         ((takeWhile (\<lambda>c. c \<noteq> CHR '' '') (drop 7 h) = drop 7 h) = (CHR '' '' \<notin> set (drop 7 h)))"
proof -
  have "queries (r_world (requireAuth w req res)) = queries w @ [token_of h]"
    using assms by (simp add: requireAuth_lookup split: sum.splits option.splits)
  moreover have "token s = t" if "findUnique (db w) (Some t) = Inr (Some s)" for t
    using that by (auto simp: findUnique_def find_Some_iff split: option.splits)
  moreover have "(takeWhile (\<lambda>c. c \<noteq> CHR '' '') (drop 7 h) = drop 7 h) = (CHR '' '' \<notin> set (drop 7 h))"
    by (auto simp: takeWhile_eq_all_conv)
  ultimately show ?thesis
    by (simp add: token_of_Bearer [OF assms(2)])
qed

theorem lookup_key_is_second_field_witness:
  "authorization (request_with (Some ''Bearer xyz abc'')) = Some ''Bearer xyz abc'' \<and>
   startsWith ''Bearer xyz abc'' ''Bearer '' \<and>
   queries (r_world (requireAuth (world_at 3600000 None 0)
              (request_with (Some ''Bearer xyz abc'')) new_response)) = [Some ''xyz''] \<and>
   findUnique (db (world_at 3600000 None 0)) (token_of ''Bearer xyz abc'') =
     Inr (Some (session_xyz 3600000)) \<and>
   token (session_xyz 3600000) = ''xyz''"
proof -
  have a: "authorization (request_with (Some ''Bearer xyz abc'')) = Some ''Bearer xyz abc''"
    by (simp add: request_with_def)
  have b: "startsWith ''Bearer xyz abc'' ''Bearer ''"
    by (simp add: startsWith_def)
  have c: "findUnique (db (world_at 3600000 None 0)) (token_of ''Bearer xyz abc'') =
             Inr (Some (session_xyz 3600000))"
    by (simp add: findUnique_def token_of_def world_at_def store_def session_xyz_def)
  show ?thesis
    using a b c
      lookup_key_is_second_field [OF a b, of "world_at 3600000 None 0" new_response "session_xyz 3600000"]
    by (simp add: world_at_def)
qed

text \<open>
  C6 (as stated, refuted). When the session lookup fails, the middleware's 500 response
  has the single field \<open>error\<close> and no \<open>message\<close>; and the global error responder puts the
  failure's own message text into the response.
\<close>

theorem auth_failure_body_counterexample:
  "findUnique (db (world_at 3600000 (Some connection_lost) 0)) (token_of ''Bearer xyz'') =
     Inl connection_lost \<and>
   statusCode (r_res (requireAuth (world_at 3600000 (Some connection_lost) 0)
                 (request_with (Some ''Bearer xyz'')) new_response)) = 500 \<and>
   map_option keys (body (r_res (requireAuth (world_at 3600000 (Some connection_lost) 0)
                 (request_with (Some ''Bearer xyz'')) new_response))) = Some [''error''] \<and>
   body (r_res (errorHandler connection_lost (world_at 3600000 None 0)
                 (request_with None) new_response)) =
     Some (JObject [(''error'', JString ''Internal server error''),
                    (''message'', JString ''connect ECONNREFUSED 127.0.0.1:5432'')])"
  by (simp add: requireAuth_def session_findUnique_def findUnique_def token_of_def
        startsWith_def world_at_def store_def session_xyz_def request_with_def
        errorHandler_def connection_lost_def status_def res_json_def new_response_def)

text \<open>
  C6 (amended). A failed session lookup makes the middleware answer 500 with the body
  \<open>{error: "Internal server error during auth"}\<close>, the same for every cause and with no
  \<open>message\<close> field, write one \<open>console.error\<close> line holding the cause, and not call
  \<open>next()\<close>; whenever the middleware answers a fresh response with 500, the body is that
  one. The global error responder answers 500 with the fields \<open>error\<close> and \<open>message\<close>,
  \<open>message\<close> being the failure's message text, and writes one \<open>console.error\<close> line
  holding that text.
\<close>

theorem internal_failure_responses:
  "(authorization req = Some h \<and> startsWith h ''Bearer '' \<and>
    findUnique (db w) (token_of h) = Inl e \<longrightarrow>
      r_res (requireAuth w req res) =
        res\<lparr>statusCode := 500,
            body := Some (JObject [(''error'', JString ''Internal server error during auth'')])\<rparr> \<and>
      console (r_world (requireAuth w req res)) =
        console w @ [''Auth middleware error: '' @ Error_toString e] \<and>
      \<not> next_called (requireAuth w req res)) \<and>
   (statusCode (r_res (requireAuth w req new_response)) = 500 \<longrightarrow>
      body (r_res (requireAuth w req new_response)) =
        Some (JObject [(''error'', JString ''Internal server error during auth'')])) \<and>
   r_res (errorHandler err w req res) =
     res\<lparr>statusCode := 500,
         body := Some (JObject [(''error'', JString ''Internal server error''),
                                (''message'', JString (message err))])\<rparr> \<and>
   console (r_world (errorHandler err w req res)) = console w @ [''Error: '' @ message err]"
proof -
  have "statusCode (r_res (requireAuth w req new_response)) = 500 \<longrightarrow>
          body (r_res (requireAuth w req new_response)) =
            Some (JObject [(''error'', JString ''Internal server error during auth'')])"
  proof (cases "case authorization req of None \<Rightarrow> True | Some h \<Rightarrow> \<not> startsWith h ''Bearer ''")
    case True
    then show ?thesis
      by (simp add: requireAuth_no_token)
  next
    case False
    then obtain k where "authorization req = Some k" and "startsWith k ''Bearer ''"
      by (auto split: option.splits)
    then show ?thesis
      by (simp add: requireAuth_lookup new_response_def split: sum.splits option.splits)
  qed
  then show ?thesis
    by (simp add: requireAuth_lookup errorHandler_def status_def res_json_def)
qed

theorem internal_failure_responses_witness:
  "authorization (request_with (Some ''Bearer xyz'')) = Some ''Bearer xyz'' \<and>
   startsWith ''Bearer xyz'' ''Bearer '' \<and>
   findUnique (db (world_at 3600000 (Some connection_lost) 0)) (token_of ''Bearer xyz'') =
     Inl connection_lost \<and>
   r_res (requireAuth (world_at 3600000 (Some connection_lost) 0)
            (request_with (Some ''Bearer xyz'')) new_response) =
     \<lparr>statusCode = 500,
      body = Some (JObject [(''error'', JString ''Internal server error during auth'')])\<rparr> \<and>
   console (r_world (requireAuth (world_at 3600000 (Some connection_lost) 0)
            (request_with (Some ''Bearer xyz'')) new_response)) =
     [''Auth middleware error: Error: connect ECONNREFUSED 127.0.0.1:5432'']"
proof -
  have a: "authorization (request_with (Some ''Bearer xyz'')) = Some ''Bearer xyz''"
    by (simp add: request_with_def)
  have b: "startsWith ''Bearer xyz'' ''Bearer ''"
    by (simp add: startsWith_def)
  have c: "findUnique (db (world_at 3600000 (Some connection_lost) 0)) (token_of ''Bearer xyz'') =
             Inl connection_lost"
    by (simp add: findUnique_def token_of_def world_at_def store_def)
  show ?thesis
    using a b c
      internal_failure_responses [of "request_with (Some ''Bearer xyz'')" "''Bearer xyz''"
        "world_at 3600000 (Some connection_lost) 0" connection_lost new_response]
    by (simp add: new_response_def world_at_def Error_toString_def connection_lost_def)
qed

text \<open>
  C7. For every failure handed to the global error responder: it writes exactly one
  \<open>console.error\<close> line, \<open>Error: \<close> followed by the failure's message, answers 500 with
  \<open>{error: "Internal server error", message: <the failure's message>}\<close> whatever the
  response held before, never passes the failure on (\<open>next\<close> is not called), touches
  nothing else, and does the same whatever the failure's kind (its \<open>name\<close>).
\<close>

theorem errorHandler_contract:
  "r_res (errorHandler err w req res) =
     res\<lparr>statusCode := 500,
         body := Some (JObject [(''error'', JString ''Internal server error''),
                                (''message'', JString (message err))])\<rparr> \<and>
   console (r_world (errorHandler err w req res)) = console w @ [''Error: '' @ message err] \<and>
   length (console (r_world (errorHandler err w req res))) = Suc (length (console w)) \<and>
   db (r_world (errorHandler err w req res)) = db w \<and>
   queries (r_world (errorHandler err w req res)) = queries w \<and>
   r_req (errorHandler err w req res) = req \<and>
   \<not> next_called (errorHandler err w req res) \<and>
   errorHandler (err\<lparr>err_name := kind\<rparr>) w req res = errorHandler err w req res"
  by (simp add: errorHandler_def status_def res_json_def)

theorem errorHandler_contract_witness:
  "r_res (errorHandler connection_lost (world_at 3600000 None 0) (request_with None) new_response) =
     \<lparr>statusCode = 500,
      body = Some (JObject [(''error'', JString ''Internal server error''),
                            (''message'', JString ''connect ECONNREFUSED 127.0.0.1:5432'')])\<rparr> \<and>
   console (r_world (errorHandler connection_lost (world_at 3600000 None 0) (request_with None)
     new_response)) = [''Error: connect ECONNREFUSED 127.0.0.1:5432''] \<and>
   errorHandler (connection_lost\<lparr>err_name := ''TypeError''\<rparr>) (world_at 3600000 None 0)
     (request_with None) new_response =
   errorHandler connection_lost (world_at 3600000 None 0) (request_with None) new_response"
  using errorHandler_contract [of connection_lost "world_at 3600000 None 0" "request_with None"
      new_response "''TypeError''"]
  by (simp add: new_response_def world_at_def connection_lost_def)

text \<open>
  C8 (as stated, refuted). When the session lookup fails, the middleware writes a
  \<open>console.error\<close> line besides the 500 response: the console after the call is not the
  console before it.
\<close>

theorem console_line_on_lookup_failure_counterexample:
  "console (world_at 3600000 (Some connection_lost) 0) = [] \<and>
   statusCode (r_res (requireAuth (world_at 3600000 (Some connection_lost) 0)
     (request_with (Some ''Bearer xyz'')) new_response)) = 500 \<and>
   console (r_world (requireAuth (world_at 3600000 (Some connection_lost) 0)
     (request_with (Some ''Bearer xyz'')) new_response)) =
     [''Auth middleware error: Error: connect ECONNREFUSED 127.0.0.1:5432''] \<and>
   console (r_world (requireAuth (world_at 3600000 (Some connection_lost) 0)
     (request_with (Some ''Bearer xyz'')) new_response)) \<noteq>
   console (world_at 3600000 (Some connection_lost) 0)"
  by (simp add: requireAuth_def session_findUnique_def findUnique_def token_of_def
        startsWith_def world_at_def store_def request_with_def connection_lost_def
        Error_toString_def status_def res_json_def new_response_def)

text \<open>
  C8 (amended). Whatever the request and the outcome, the datastore (and the clock) after
  \<open>requireAuth\<close> is the one before it, also after a whole route on every request path.
  When the middleware calls \<open>next()\<close> it has written no response and no console line,
  and has changed nothing of the request but \<open>req.user\<close>. When it does not, it has
  written a response with status 401 or 500 and has left the request as it was; with
  status 401 it has written no console line, and with status 500 the lookup has failed
  and it has written exactly one console line, the one reporting that failure.
\<close>

theorem session_store_unchanged:
  "db (r_world (requireAuth w req res)) = db w \<and>
   now (r_world (requireAuth w req res)) = now w \<and>
   (next_called (requireAuth w req res) \<longrightarrow>
      r_res (requireAuth w req res) = res \<and>
      console (r_world (requireAuth w req res)) = console w \<and>
      authorization (r_req (requireAuth w req res)) = authorization req) \<and>
   (\<not> next_called (requireAuth w req res) \<longrightarrow>
      body (r_res (requireAuth w req res)) \<noteq> None \<and>
      statusCode (r_res (requireAuth w req res)) \<in> {401, 500} \<and>
      r_req (requireAuth w req res) = req) \<and>
   (statusCode (r_res (requireAuth w req res)) = 401 \<longrightarrow>
      console (r_world (requireAuth w req res)) = console w) \<and>
   (\<not> next_called (requireAuth w req res) \<and> statusCode (r_res (requireAuth w req res)) = 500 \<longrightarrow>
      (\<exists>h e. authorization req = Some h \<and> findUnique (db w) (token_of h) = Inl e \<and>
         console (r_world (requireAuth w req res)) =
           console w @ [''Auth middleware error: '' @ Error_toString e])) \<and>
   (router_get path w req = Some r \<longrightarrow> db (r_world r) = db w) \<and>
   map_option (db \<circ> r_world) (router_get ''/profile'' w req) = Some (db w) \<and>
   map_option (db \<circ> r_world) (router_get ''/dashboard'' w req) = Some (db w)"
proof (cases "case authorization req of None \<Rightarrow> True | Some h \<Rightarrow> \<not> startsWith h ''Bearer ''")
  case True
  have "router_get path w req = Some r \<longrightarrow> db (r_world r) = db w"
    using True by (auto simp: requireAuth_no_token router_get_def route_def split: if_splits)
  then show ?thesis
    using True
    by (simp add: requireAuth_no_token router_get_profile router_get_dashboard route_def)
next
  case False
  then obtain h where h: "authorization req = Some h" "startsWith h ''Bearer ''"
    by (auto split: option.splits)
  have d: "db (r_world (requireAuth w req res')) = db w" for res'
    by (simp add: requireAuth_lookup [OF h] split: sum.splits option.splits)
  then have "router_get path w req = Some r \<longrightarrow> db (r_world r) = db w"
    by (auto simp: router_get_def route_def Let_def split: if_splits)
  moreover have "map_option (db \<circ> r_world) (router_get ''/profile'' w req) = Some (db w)"
    and "map_option (db \<circ> r_world) (router_get ''/dashboard'' w req) = Some (db w)"
    using d [of new_response]
    by (simp_all add: router_get_profile router_get_dashboard route_def Let_def)
  moreover have "\<not> next_called (requireAuth w req res) \<and>
      statusCode (r_res (requireAuth w req res)) = 500 \<longrightarrow>
      (\<exists>h e. authorization req = Some h \<and> findUnique (db w) (token_of h) = Inl e \<and>
         console (r_world (requireAuth w req res)) =
           console w @ [''Auth middleware error: '' @ Error_toString e])"
    using h(1) by (auto simp: requireAuth_lookup [OF h] split: sum.splits option.splits)
  ultimately show ?thesis
    by (simp add: requireAuth_lookup [OF h] split: sum.splits option.splits)
qed

theorem session_store_unchanged_witness:
  "db (r_world (requireAuth (world_at 3600000 None 0) (request_with (Some ''Bearer xyz'')) new_response)) =
     store 3600000 None \<and>
   next_called (requireAuth (world_at 3600000 None 0) (request_with (Some ''Bearer xyz'')) new_response) \<and>
   r_res (requireAuth (world_at 3600000 None 0) (request_with (Some ''Bearer xyz'')) new_response) =
     new_response \<and>
   console (r_world (requireAuth (world_at 3600000 None 0) (request_with (Some ''Bearer xyz''))
     new_response)) = [] \<and>
   db (r_world (requireAuth (world_at (- 3600000) None 0) (request_with (Some ''Bearer xyz'')) new_response)) =
     store (- 3600000) None \<and>
   \<not> next_called (requireAuth (world_at (- 3600000) None 0) (request_with (Some ''Bearer xyz'')) new_response) \<and>
   statusCode (r_res (requireAuth (world_at (- 3600000) None 0) (request_with (Some ''Bearer xyz''))
     new_response)) = 401 \<and>
   console (r_world (requireAuth (world_at (- 3600000) None 0) (request_with (Some ''Bearer xyz''))
     new_response)) = [] \<and>
   db (r_world (requireAuth (world_at 3600000 (Some connection_lost) 0) (request_with (Some ''Bearer xyz''))
     new_response)) = store 3600000 (Some connection_lost) \<and>
   statusCode (r_res (requireAuth (world_at 3600000 (Some connection_lost) 0)
     (request_with (Some ''Bearer xyz'')) new_response)) = 500 \<and>
   map_option (db \<circ> r_world) (router_get ''/dashboard'' (world_at 3600000 (Some connection_lost) 0)
     (request_with (Some ''Bearer xyz''))) = Some (store 3600000 (Some connection_lost))"
proof -
  have ok: "next_called (requireAuth (world_at 3600000 None 0) (request_with (Some ''Bearer xyz'')) new_response)"
    by (simp add: requireAuth_def session_findUnique_def findUnique_def token_of_def
          startsWith_def world_at_def store_def session_xyz_def request_with_def)
  have expired: "statusCode (r_res (requireAuth (world_at (- 3600000) None 0)
      (request_with (Some ''Bearer xyz'')) new_response)) = 401"
    by (simp add: requireAuth_def session_findUnique_def findUnique_def token_of_def
          startsWith_def world_at_def store_def session_xyz_def request_with_def
          status_def res_json_def)
  have failed: "statusCode (r_res (requireAuth (world_at 3600000 (Some connection_lost) 0)
      (request_with (Some ''Bearer xyz'')) new_response)) = 500"
    by (simp add: requireAuth_def session_findUnique_def findUnique_def token_of_def
          startsWith_def world_at_def store_def session_xyz_def request_with_def
          status_def res_json_def)
  have rejected: "\<not> next_called (requireAuth (world_at (- 3600000) None 0)
      (request_with (Some ''Bearer xyz'')) new_response)"
    by (simp add: requireAuth_def session_findUnique_def findUnique_def token_of_def
          startsWith_def world_at_def store_def session_xyz_def request_with_def)
  show ?thesis
    using ok expired failed rejected
      session_store_unchanged [of "world_at 3600000 None 0" "request_with (Some ''Bearer xyz'')" new_response]
      session_store_unchanged [of "world_at (- 3600000) None 0" "request_with (Some ''Bearer xyz'')" new_response]
      session_store_unchanged [of "world_at 3600000 (Some connection_lost) 0"
        "request_with (Some ''Bearer xyz'')" new_response]
    by (simp add: world_at_def)
qed

text \<open>
  C9. The scheme must be the exact word \<open>Bearer\<close> followed by a space. A header made of
  any other scheme word (one without a space in it, so every other spelling of
  \<open>bearer\<close> in upper and lower case), a space and a token, and the header \<open>Bearer\<close> with
  nothing after it, are answered 401 with \<open>{error: "Unauthorized: No Token provided"}\<close>:
  \<open>next()\<close> is not called and the world is left as it was.
\<close>

theorem scheme_check_is_exact:
  assumes "authorization req = Some ''Bearer'' \<or>
           authorization req = Some (scheme @ '' '' @ t) \<and> scheme \<noteq> ''Bearer'' \<and>
             CHR '' '' \<notin> set scheme"
  shows "r_res (requireAuth w req res) =
           res\<lparr>statusCode := 401,
               body := Some (JObject [(''error'', JString ''Unauthorized: No Token provided'')])\<rparr> \<and>
         \<not> next_called (requireAuth w req res) \<and>
         r_world (requireAuth w req res) = w"
proof -
  have "case authorization req of None \<Rightarrow> True | Some h \<Rightarrow> \<not> startsWith h ''Bearer ''"
    using assms bare_Bearer scheme_word_is_Bearer [of scheme t] by auto
  then show ?thesis
    by (simp add: requireAuth_no_token)
qed

theorem scheme_check_is_exact_witness:
  "findUnique (db (world_at 3600000 None 0)) (Some ''xyz'') = Inr (Some (session_xyz 3600000)) \<and>
   r_res (requireAuth (world_at 3600000 None 0) (request_with (Some ''bearer xyz'')) new_response) =
     \<lparr>statusCode = 401,
      body = Some (JObject [(''error'', JString ''Unauthorized: No Token provided'')])\<rparr> \<and>
   r_res (requireAuth (world_at 3600000 None 0) (request_with (Some ''BEARER xyz'')) new_response) =
     \<lparr>statusCode = 401,
      body = Some (JObject [(''error'', JString ''Unauthorized: No Token provided'')])\<rparr> \<and>
   r_res (requireAuth (world_at 3600000 None 0) (request_with (Some ''Bearer'')) new_response) =
     \<lparr>statusCode = 401,
      body = Some (JObject [(''error'', JString ''Unauthorized: No Token provided'')])\<rparr>"
proof -
  have s: "findUnique (db (world_at 3600000 None 0)) (Some ''xyz'') = Inr (Some (session_xyz 3600000))"
    by (simp add: findUnique_def world_at_def store_def session_xyz_def)
  have a: "authorization (request_with (Some ''bearer xyz'')) = Some ''Bearer'' \<or>
           authorization (request_with (Some ''bearer xyz'')) = Some (''bearer'' @ '' '' @ ''xyz'') \<and>
           ''bearer'' \<noteq> ''Bearer'' \<and> CHR '' '' \<notin> set ''bearer''"
    by (simp add: request_with_def)
  have b: "authorization (request_with (Some ''BEARER xyz'')) = Some ''Bearer'' \<or>
           authorization (request_with (Some ''BEARER xyz'')) = Some (''BEARER'' @ '' '' @ ''xyz'') \<and>
           ''BEARER'' \<noteq> ''Bearer'' \<and> CHR '' '' \<notin> set ''BEARER''"
    by (simp add: request_with_def)
  have c: "authorization (request_with (Some ''Bearer'')) = Some ''Bearer'' \<or>
           authorization (request_with (Some ''Bearer'')) = Some ([] @ '' '' @ []) \<and>
           [] \<noteq> ''Bearer'' \<and> CHR '' '' \<notin> set []"
    by (simp add: request_with_def)
  show ?thesis
    using s scheme_check_is_exact [OF a, of "world_at 3600000 None 0" new_response]
      scheme_check_is_exact [OF b, of "world_at 3600000 None 0" new_response]
      scheme_check_is_exact [OF c, of "world_at 3600000 None 0" new_response]
    by (simp add: new_response_def)
qed

text \<open>
  C10. The trace of \<open>findUnique\<close> calls is left as it was when the header is absent or
  does not start with \<open>Bearer \<close>; when the header passes the prefix check, exactly one call
  is added, with the token extracted from the header.
\<close>

theorem lookup_only_after_prefix_check:
  "((case authorization req of None \<Rightarrow> True | Some h \<Rightarrow> \<not> startsWith h ''Bearer '') \<longrightarrow>
      queries (r_world (requireAuth w req res)) = queries w) \<and>
   (authorization req = Some k \<and> startsWith k ''Bearer '' \<longrightarrow>
      queries (r_world (requireAuth w req res)) = queries w @ [token_of k])"
  by (simp add: requireAuth_no_token requireAuth_lookup split: sum.splits option.splits)

theorem lookup_only_after_prefix_check_witness:
  "queries (r_world (requireAuth (world_at 3600000 None 0) (request_with None) new_response)) = [] \<and>
   queries (r_world (requireAuth (world_at 3600000 None 0) (request_with (Some ''Token xyz''))
     new_response)) = [] \<and>
   queries (r_world (requireAuth (world_at 3600000 None 0) (request_with (Some ''Bearer xyz''))
     new_response)) = [Some ''xyz'']"
proof -
  have a: "case authorization (request_with None) of None \<Rightarrow> True
           | Some h \<Rightarrow> \<not> startsWith h ''Bearer ''"
    by (simp add: request_with_def)
  have b: "case authorization (request_with (Some ''Token xyz'')) of None \<Rightarrow> True
           | Some h \<Rightarrow> \<not> startsWith h ''Bearer ''"
    by (simp add: request_with_def startsWith_def)
  have c: "authorization (request_with (Some ''Bearer xyz'')) = Some ''Bearer xyz'' \<and>
           startsWith ''Bearer xyz'' ''Bearer ''"
    by (simp add: request_with_def startsWith_def)
  have d: "token_of ''Bearer xyz'' = Some ''xyz''"
    by (simp add: token_of_def)
  show ?thesis
    using a b c d
      lookup_only_after_prefix_check [of "request_with None" "world_at 3600000 None 0" new_response]
      lookup_only_after_prefix_check [of "request_with (Some ''Token xyz'')" "world_at 3600000 None 0"
        new_response]
      lookup_only_after_prefix_check [of "request_with (Some ''Bearer xyz'')" "world_at 3600000 None 0"
        new_response "''Bearer xyz''"]
    by (simp add: world_at_def)
qed

end
